theory Spec2Isabelle
  imports Main "HOL-Library.AList"
begin

section \<open>JavaScript numbers and strings\<close>

text \<open>
  The quota fields of \<^verbatim>\<open>RateLimitTracker\<close> are JavaScript numbers that come out of
  \<^verbatim>\<open>parseInt\<close>, so besides integers they can hold \<^verbatim>\<open>NaN\<close>. A number is modelled as an
  exact integer or \<open>NaN\<close> (a double is exact for integers of magnitude up to \<open>2^53\<close>;
  rounding above that and the overflow of numerals of more than 308 digits to
  \<^verbatim>\<open>Infinity\<close> are not followed). Every comparison with \<open>NaN\<close> is false and arithmetic on
  \<open>NaN\<close> gives \<open>NaN\<close>.
\<close>

datatype jsnum = NaN | Num int

fun js_gt :: "jsnum \<Rightarrow> jsnum \<Rightarrow> bool" where
  "js_gt (Num a) (Num b) = (a > b)"
| "js_gt _ _ = False"

fun js_le :: "jsnum \<Rightarrow> jsnum \<Rightarrow> bool" where
  "js_le (Num a) (Num b) = (a \<le> b)"
| "js_le _ _ = False"

fun js_lt :: "jsnum \<Rightarrow> jsnum \<Rightarrow> bool" where
  "js_lt (Num a) (Num b) = (a < b)"
| "js_lt _ _ = False"

fun js_sub :: "jsnum \<Rightarrow> jsnum \<Rightarrow> jsnum" where
  "js_sub (Num a) (Num b) = Num (a - b)"
| "js_sub _ _ = NaN"

fun js_mul :: "jsnum \<Rightarrow> jsnum \<Rightarrow> jsnum" where
  "js_mul (Num a) (Num b) = Num (a * b)"
| "js_mul _ _ = NaN"

text \<open>\<^verbatim>\<open>Math.max(a, b)\<close>: \<^verbatim>\<open>NaN\<close> as soon as one argument is.\<close>

fun js_max :: "jsnum \<Rightarrow> jsnum \<Rightarrow> jsnum" where
  "js_max (Num a) (Num b) = Num (max a b)"
| "js_max _ _ = NaN"

definition isDigit :: "char \<Rightarrow> bool" where
  "isDigit c = (c \<in> set ''0123456789'')"

definition digitVal :: "char \<Rightarrow> nat" where
  "digitVal c = (of_char c :: nat) - 48"

text \<open>The white space \<^verbatim>\<open>parseInt\<close> strips, as far as one-byte characters go.\<close>

definition isWhite :: "char \<Rightarrow> bool" where
  "isWhite c = ((of_char c :: nat) \<in> {9, 10, 11, 12, 13, 32, 160})"

definition digitsVal :: "string \<Rightarrow> nat" where
  "digitsVal ds = foldl (\<lambda>a c. 10 * a + digitVal c) 0 ds"

text \<open>
  \<^verbatim>\<open>parseInt(s, 10)\<close>: skip leading white space, read an optional sign, then the longest
  run of decimal digits; no digit at all gives \<^verbatim>\<open>NaN\<close>. Anything after the digits is
  dropped.
\<close>

definition stripSign :: "string \<Rightarrow> int \<times> string" where
  "stripSign t =
     (case t of
        [] \<Rightarrow> (1, t)
      | c # r \<Rightarrow> if c = CHR ''-'' then (- 1, r)
                else if c = CHR ''+'' then (1, r)
                else (1, t))"

definition parseInt :: "string \<Rightarrow> jsnum" where
  "parseInt s =
     (let (sgn, u) = stripSign (dropWhile isWhite s);
          ds = takeWhile isDigit u
      in if ds = [] then NaN else Num (sgn * int (digitsVal ds)))"

text \<open>\<^verbatim>\<open>String.prototype.includes\<close>: does \<open>sub\<close> occur in \<open>s\<close>?\<close>

fun startsWith :: "string \<Rightarrow> string \<Rightarrow> bool" where
  "startsWith s [] = True"
| "startsWith [] (p # ps) = False"
| "startsWith (c # cs) (p # ps) = (c = p \<and> startsWith cs ps)"

fun str_includes :: "string \<Rightarrow> string \<Rightarrow> bool" where
  "str_includes [] sub = (sub = [])"
| "str_includes (c # cs) sub = (startsWith (c # cs) sub \<or> str_includes cs sub)"

text \<open>The decimal numeral of a number, as \<^verbatim>\<open>String(n)\<close> and template strings print it.\<close>

definition digitChar :: "nat \<Rightarrow> char" where
  "digitChar d = ''0123456789'' ! d"

fun show_nat :: "nat \<Rightarrow> string" where
  "show_nat n = (if n < 10 then [digitChar n] else show_nat (n div 10) @ [digitChar (n mod 10)])"

declare show_nat.simps [simp del]

definition show_int :: "int \<Rightarrow> string" where
  "show_int i = (if i < 0 then CHR ''-'' # show_nat (nat (- i)) else show_nat (nat i))"

text \<open>\<^verbatim>\<open>Array.prototype.join\<close>.\<close>

fun join :: "string \<Rightarrow> string list \<Rightarrow> string" where
  "join sep [] = []"
| "join sep [x] = x"
| "join sep (x # y # ys) = x @ sep @ join sep (y # ys)"

section \<open>RateLimitTracker\<close>

datatype priority = critical | normal | low

datatype opmode = normal_mode | conservative | emergency

text \<open>
  A header value is a string or an array of strings; the header object is an association
  list read with \<open>map_of\<close>.
\<close>

datatype hval = Single string | Multi "string list"

type_synonym headers = "(string \<times> hval) list"

record tracker =
  requestsRemaining :: jsnum
  requestsLimit :: jsnum
  resetTimestamp :: jsnum
  complexityRemaining :: jsnum
  complexityLimit :: jsnum
  requestHistory :: "int list"

definition HISTORY_WINDOW_MS :: int where "HISTORY_WINDOW_MS = 60000"
definition EMERGENCY_THRESHOLD :: jsnum where "EMERGENCY_THRESHOLD = Num 100"
definition CONSERVATIVE_THRESHOLD :: jsnum where "CONSERVATIVE_THRESHOLD = Num 300"

text \<open>The field initialisers of the class, for a tracker constructed at time \<open>now\<close>.\<close>

definition newTracker :: "int \<Rightarrow> tracker" where
  "newTracker now =
     \<lparr> requestsRemaining = Num 1200, requestsLimit = Num 1200,
       resetTimestamp = Num (now + 3600000),
       complexityRemaining = Num 50000, complexityLimit = Num 50000,
       requestHistory = [] \<rparr>"

definition getHeaderValue :: "headers \<Rightarrow> string \<Rightarrow> string option" where
  "getHeaderValue hs key =
     (case map_of hs key of
        None \<Rightarrow> None
      | Some (Multi vs) \<Rightarrow> (case vs of [] \<Rightarrow> None | v # _ \<Rightarrow> Some v)
      | Some (Single v) \<Rightarrow> Some v)"

definition trackRequest :: "int \<Rightarrow> tracker \<Rightarrow> tracker" where
  "trackRequest now tr =
     tr\<lparr>requestHistory :=
          filter (\<lambda>ts. ts > now - HISTORY_WINDOW_MS) (requestHistory tr @ [now])\<rparr>"

text \<open>
  One \<^verbatim>\<open>if (v !== undefined) this.f = parseInt(v, 10)\<close> of \<^verbatim>\<open>updateFromHeaders\<close>: the
  field keeps its value when the header is absent and takes whatever \<^verbatim>\<open>parseInt\<close>
  returns otherwise.
\<close>

definition readField :: "headers \<Rightarrow> string \<Rightarrow> jsnum \<Rightarrow> jsnum" where
  "readField hs key old = (case getHeaderValue hs key of None \<Rightarrow> old | Some v \<Rightarrow> parseInt v)"

definition updateFromHeaders :: "headers \<Rightarrow> int \<Rightarrow> tracker \<Rightarrow> tracker" where
  "updateFromHeaders hs now tr =
     trackRequest now
       (tr\<lparr>requestsRemaining :=
              readField hs ''x-ratelimit-requests-remaining'' (requestsRemaining tr),
           requestsLimit :=
              readField hs ''x-ratelimit-requests-limit'' (requestsLimit tr),
           resetTimestamp :=
              (case getHeaderValue hs ''x-ratelimit-requests-reset'' of
                 None \<Rightarrow> resetTimestamp tr
               | Some v \<Rightarrow> js_mul (parseInt v) (Num 1000)),
           complexityRemaining :=
              readField hs ''x-ratelimit-complexity-remaining'' (complexityRemaining tr),
           complexityLimit :=
              readField hs ''x-ratelimit-complexity-limit'' (complexityLimit tr)\<rparr>)"

definition getTimeUntilReset :: "int \<Rightarrow> tracker \<Rightarrow> jsnum" where
  "getTimeUntilReset now tr = js_max (Num 0) (js_sub (resetTimestamp tr) (Num now))"

definition shouldAllowRequest :: "tracker \<Rightarrow> priority \<Rightarrow> bool" where
  "shouldAllowRequest tr p =
     (if js_gt (requestsRemaining tr) CONSERVATIVE_THRESHOLD then True
      else if js_le (requestsRemaining tr) EMERGENCY_THRESHOLD then p = critical
      else if js_le (requestsRemaining tr) CONSERVATIVE_THRESHOLD then p \<noteq> low
      else True)"

definition getRecommendedBatchWindow :: "tracker \<Rightarrow> int" where
  "getRecommendedBatchWindow tr =
     (if js_gt (requestsRemaining tr) CONSERVATIVE_THRESHOLD then 500
      else if js_gt (requestsRemaining tr) EMERGENCY_THRESHOLD then 2000
      else 5000)"

definition getOperationMode :: "tracker \<Rightarrow> opmode" where
  "getOperationMode tr =
     (if js_gt (requestsRemaining tr) CONSERVATIVE_THRESHOLD then normal_mode
      else if js_gt (requestsRemaining tr) EMERGENCY_THRESHOLD then conservative
      else emergency)"

definition consumeRequest :: "int \<Rightarrow> tracker \<Rightarrow> tracker" where
  "consumeRequest now tr =
     trackRequest now
       (tr\<lparr>requestsRemaining := js_max (Num 0) (js_sub (requestsRemaining tr) (Num 1))\<rparr>)"

section \<open>IssueCache\<close>

text \<open>
  The cache is a JavaScript \<^verbatim>\<open>Map\<close>, which keeps its keys in insertion order; the order
  matters to the stable sort of \<^verbatim>\<open>evictIfNeeded\<close>. It is an association list with distinct
  keys: \<open>map_of\<close> reads it, \<open>AList.update\<close> replaces a present key in place and appends an
  absent one, \<open>AList.delete\<close> removes one. The cached objects are mutated in place by
  \<^verbatim>\<open>get\<close>; the model writes the changed entry back under its key.
\<close>

record 'i cachedIssue =
  issue :: 'i
  timestamp :: int
  ttl :: int
  accessCount :: nat
  lastAccessed :: int

type_synonym 'i cache = "(string \<times> 'i cachedIssue) list"

definition DEFAULT_TTL :: int where "DEFAULT_TTL = 600000"
definition EXTENDED_TTL :: int where "EXTENDED_TTL = 1800000"
definition STALE_TTL :: int where "STALE_TTL = 3600000"
definition MAX_CACHE_SIZE :: nat where "MAX_CACHE_SIZE = 100"

text \<open>\<^verbatim>\<open>get(issueId, allowStale)\<close> at time \<open>now\<close>: the value returned and the cache afterwards.\<close>

definition cache_get :: "string \<Rightarrow> bool \<Rightarrow> int \<Rightarrow> 'i cache \<Rightarrow> 'i option \<times> 'i cache" where
  "cache_get issueId allowStale now c =
     (case map_of c issueId of
        None \<Rightarrow> (None, c)
      | Some cached \<Rightarrow>
          let age = now - timestamp cached;
              c' = AList.update issueId
                     (cached\<lparr>accessCount := accessCount cached + 1, lastAccessed := now\<rparr>) c
          in if age \<le> ttl cached then (Some (issue cached), c')
             else if allowStale \<and> age \<le> STALE_TTL then (Some (issue cached), c')
             else (None, c'))"

text \<open>
  \<^verbatim>\<open>evictIfNeeded\<close>: over capacity, the entries are sorted by \<^verbatim>\<open>lastAccessed\<close> (a stable
  sort over the insertion order) and the first \<open>size - MAX_CACHE_SIZE + 10\<close> of them are
  deleted one after the other.
\<close>

definition evictIfNeeded :: "'i cache \<Rightarrow> 'i cache" where
  "evictIfNeeded c =
     (if length c \<le> MAX_CACHE_SIZE then c
      else let entries = sort_key (\<lambda>e. lastAccessed (snd e)) c;
               toRemove = length c - MAX_CACHE_SIZE + 10
           in foldl (\<lambda>m e. AList.delete (fst e) m) c (take toRemove entries))"

definition cache_set :: "string \<Rightarrow> 'i \<Rightarrow> int \<Rightarrow> 'i cache \<Rightarrow> 'i cache" where
  "cache_set issueId iss now c =
     (let existing = map_of c issueId;
          t = (case existing of
                 Some e \<Rightarrow> if accessCount e > 5 then EXTENDED_TTL else DEFAULT_TTL
               | None \<Rightarrow> DEFAULT_TTL)
      in evictIfNeeded
           (AList.update issueId
              \<lparr> issue = iss, timestamp = now, ttl = t,
                accessCount = (case existing of Some e \<Rightarrow> accessCount e | None \<Rightarrow> 0),
                lastAccessed = now \<rparr> c))"

definition invalidate :: "string \<Rightarrow> 'i cache \<Rightarrow> 'i cache" where
  "invalidate issueId c = AList.delete issueId c"

definition needsRefresh :: "string \<Rightarrow> int \<Rightarrow> 'i cache \<Rightarrow> bool" where
  "needsRefresh issueId now c =
     (case map_of c issueId of None \<Rightarrow> True | Some cached \<Rightarrow> now - timestamp cached > ttl cached)"

definition updateTTL :: "string \<Rightarrow> 'i cache \<Rightarrow> 'i cache" where
  "updateTTL issueId c =
     (case map_of c issueId of
        None \<Rightarrow> c
      | Some cached \<Rightarrow>
          if accessCount cached > 10 then AList.update issueId (cached\<lparr>ttl := EXTENDED_TTL\<rparr>) c
          else c)"

section \<open>RequestQueue\<close>

text \<open>
  What a thrown error carries, as far as the gateway looks at it: its \<^verbatim>\<open>message\<close>, its
  \<^verbatim>\<open>status\<close> and the reset header of the failed response, each of them optional.
\<close>

record error =
  message :: "string option"
  status :: "int option"
  resetHeader :: "string option"

type_synonym result = string

datatype outcome = Ok result | Err error

text \<open>
  Promises live in a store indexed by their allocation number. A promise settles once:
  \<^verbatim>\<open>resolve\<close> and \<^verbatim>\<open>reject\<close> on a settled promise do nothing.
\<close>

datatype settle = Pending | Resolved result | Rejected error

definition newPromise :: "settle list \<Rightarrow> nat \<times> settle list" where
  "newPromise ps = (length ps, ps @ [Pending])"

definition resolve_p :: "nat \<Rightarrow> result \<Rightarrow> settle list \<Rightarrow> settle list" where
  "resolve_p i v ps = (if i < length ps \<and> ps ! i = Pending then ps[i := Resolved v] else ps)"

definition reject_p :: "nat \<Rightarrow> error \<Rightarrow> settle list \<Rightarrow> settle list" where
  "reject_p i e ps = (if i < length ps \<and> ps ! i = Pending then ps[i := Rejected e] else ps)"

text \<open>
  A \<^verbatim>\<open>QueuedRequest\<close>. Its \<^verbatim>\<open>resolve\<close> and \<^verbatim>\<open>reject\<close> are the two handles of one promise,
  \<open>future\<close>; \<open>execute\<close> names the closure, whose behaviour an executor function supplies.
  The random \<^verbatim>\<open>id\<close> is never read and is left out.
\<close>

record 'c request =
  priority :: priority
  execute :: 'c
  future :: nat
  req_timestamp :: int
  retryCount :: nat

text \<open>
  Running a request's closure: it returns or throws, and it may change the shared tracker
  on the way (the wrapper's closures do).
\<close>

type_synonym 'c executor = "'c request \<Rightarrow> tracker \<Rightarrow> outcome \<times> tracker"

text \<open>
  The fields of the class, the tracker it shares, the promise store, and the pending
  \<^verbatim>\<open>setTimeout\<close> callbacks: \<open>batchTimer\<close> holds the delay of the scheduled pass,
  \<open>retryTimers\<close> the delay and the request of each scheduled re-insertion.
\<close>

record 'c qstate =
  queue :: "'c request list"
  processing :: bool
  batchTimer :: "int option"
  lastProcessTime :: int
  rateLimitTracker :: tracker
  promises :: "settle list"
  retryTimers :: "(int \<times> 'c request) list"

definition MAX_RETRIES :: nat where "MAX_RETRIES = 3"
definition BASE_RETRY_DELAY :: int where "BASE_RETRY_DELAY = 1000"

definition newQueue :: "tracker \<Rightarrow> 'c qstate" where
  "newQueue tr =
     \<lparr> queue = [], processing = False, batchTimer = None, lastProcessTime = 0,
       rateLimitTracker = tr, promises = [], retryTimers = [] \<rparr>"

fun priorityOrder :: "priority \<Rightarrow> nat" where
  "priorityOrder critical = 0"
| "priorityOrder normal = 1"
| "priorityOrder low = 2"

text \<open>The search loop of \<^verbatim>\<open>insertByPriority\<close>, from index \<open>i\<close> over the rest \<open>q\<close> of the queue.\<close>

fun insertIndex :: "nat \<Rightarrow> nat \<Rightarrow> 'c request list \<Rightarrow> nat" where
  "insertIndex insertPriority i [] = i"
| "insertIndex insertPriority i (queueItem # q) =
     (if priorityOrder (priority queueItem) > insertPriority then i
      else insertIndex insertPriority (i + 1) q)"

definition insertByPriority :: "'c request \<Rightarrow> 'c request list \<Rightarrow> 'c request list" where
  "insertByPriority request q =
     (let i = insertIndex (priorityOrder (priority request)) 0 q
      in take i q @ [request] @ drop i q)"

definition scheduleProcessing :: "int \<Rightarrow> 'c qstate \<Rightarrow> 'c qstate" where
  "scheduleProcessing now st =
     (if batchTimer st \<noteq> None then st
      else st\<lparr>batchTimer :=
                Some (max 0 (getRecommendedBatchWindow (rateLimitTracker st)
                             - (now - lastProcessTime st)))\<rparr>)"

definition enqueue :: "'c \<Rightarrow> priority \<Rightarrow> int \<Rightarrow> 'c qstate \<Rightarrow> nat \<times> 'c qstate" where
  "enqueue ex p now st =
     (let (fut, ps) = newPromise (promises st);
          request = \<lparr> priority = p, execute = ex, future = fut,
                      req_timestamp = now, retryCount = 0 \<rparr>
      in (fut, scheduleProcessing now
                 (st\<lparr>queue := insertByPriority request (queue st), promises := ps\<rparr>)))"

definition isRateLimitMessage :: "error \<Rightarrow> bool" where
  "isRateLimitMessage e =
     (case message e of None \<Rightarrow> False | Some m \<Rightarrow> str_includes m ''rate limit'')"

text \<open>
  \<^verbatim>\<open>executeRequest\<close>: run the closure; resolve on success; on a rate-limit error within
  the retry budget schedule the re-insertion after the backoff delay, the promise left as
  it is; reject otherwise.
\<close>

definition executeRequest :: "'c executor \<Rightarrow> 'c request \<Rightarrow> 'c qstate \<Rightarrow> 'c qstate" where
  "executeRequest exec request st =
     (case exec request (rateLimitTracker st) of
        (Ok res, tr) \<Rightarrow>
          st\<lparr>rateLimitTracker := tr,
             promises := resolve_p (future request) res (promises st)\<rparr>
      | (Err e, tr) \<Rightarrow>
          if isRateLimitMessage e \<and> retryCount request < MAX_RETRIES then
            st\<lparr>rateLimitTracker := tr,
               retryTimers := retryTimers st @
                 [(BASE_RETRY_DELAY * 2 ^ retryCount request,
                   request\<lparr>retryCount := retryCount request + 1\<rparr>)]\<rparr>
          else
            st\<lparr>rateLimitTracker := tr,
               promises := reject_p (future request) e (promises st)\<rparr>)"

text \<open>
  The callback of the \<open>i\<close>-th pending retry timer, run at time \<open>now\<close>: the request goes
  back into the queue and a pass is scheduled.
\<close>

definition retryFire :: "nat \<Rightarrow> int \<Rightarrow> 'c qstate \<Rightarrow> 'c qstate" where
  "retryFire i now st =
     (if i < length (retryTimers st) then
        scheduleProcessing now
          (st\<lparr>retryTimers := take i (retryTimers st) @ drop (i + 1) (retryTimers st),
             queue := insertByPriority (snd (retryTimers st ! i)) (queue st)\<rparr>)
      else st)"

definition maxBatchSize :: "opmode \<Rightarrow> nat" where
  "maxBatchSize mode =
     (case mode of normal_mode \<Rightarrow> 5 | conservative \<Rightarrow> 2 | emergency \<Rightarrow> 1)"

text \<open>
  The \<^verbatim>\<open>while\<close> loop of \<^verbatim>\<open>processQueue\<close>. It may run forever, so it is a partial function:
  \<open>None\<close> means that the loop does not return. A refused low-priority head is moved to
  the tail and the loop goes on (\<^verbatim>\<open>continue\<close>); a refused head of another priority ends
  the loop (\<^verbatim>\<open>break\<close>); an admitted head is removed, executed and counted.
\<close>

partial_function (option) processLoop ::
  "'c executor \<Rightarrow> nat \<Rightarrow> nat \<Rightarrow> 'c qstate \<Rightarrow> 'c qstate option" where
  "processLoop exec maxBatch processedCount st =
     (case queue st of
        [] \<Rightarrow> Some st
      | request # rest \<Rightarrow>
          if \<not> processedCount < maxBatch then Some st
          else if \<not> shouldAllowRequest (rateLimitTracker st) (priority request) then
            if priority request = low then
              processLoop exec maxBatch processedCount (st\<lparr>queue := rest @ [request]\<rparr>)
            else Some st
          else
            processLoop exec maxBatch (processedCount + 1)
              (executeRequest exec request (st\<lparr>queue := rest\<rparr>)))"

declare processLoop.simps [code]

text \<open>
  \<^verbatim>\<open>processQueue\<close> entered at time \<open>now\<close>, its loop over at time \<open>fin\<close>: the guard, the
  batch size from the mode read once, the loop, the re-scheduling when requests are left,
  and the \<^verbatim>\<open>finally\<close>.
\<close>

definition processQueue ::
  "'c executor \<Rightarrow> int \<Rightarrow> int \<Rightarrow> 'c qstate \<Rightarrow> 'c qstate option" where
  "processQueue exec now fin st =
     (if processing st \<or> queue st = [] then Some st
      else
        case processLoop exec (maxBatchSize (getOperationMode (rateLimitTracker st))) 0
               (st\<lparr>processing := True, lastProcessTime := now\<rparr>) of
          None \<Rightarrow> None
        | Some st' \<Rightarrow>
            Some ((if queue st' \<noteq> [] then scheduleProcessing fin st' else st')
                    \<lparr>processing := False\<rparr>))"

text \<open>
  The callback of the batch timer. It runs only when \<^verbatim>\<open>scheduleProcessing\<close> has set the
  timer; with no timer pending there is no callback and nothing happens.
\<close>

definition batchTimerFire ::
  "'c executor \<Rightarrow> int \<Rightarrow> int \<Rightarrow> 'c qstate \<Rightarrow> 'c qstate option" where
  "batchTimerFire exec now fin st =
     (case batchTimer st of
        None \<Rightarrow> Some st
      | Some delay \<Rightarrow> processQueue exec now fin (st\<lparr>batchTimer := None\<rparr>))"

definition queueCleared :: error where
  "queueCleared = \<lparr> message = Some ''Queue cleared'', status = None, resetHeader = None \<rparr>"

definition clear :: "'c qstate \<Rightarrow> 'c qstate" where
  "clear st =
     st\<lparr>promises := foldl (\<lambda>ps r. reject_p (future r) queueCleared ps) (promises st) (queue st),
        queue := [], batchTimer := None\<rparr>"

section \<open>LinearClientWrapper\<close>

text \<open>
  The input of \<^verbatim>\<open>createAgentActivity\<close>: the session, \<^verbatim>\<open>content?.type\<close> (absent when there is
  no content or no type) and \<^verbatim>\<open>content.body\<close>.
\<close>

record activity =
  agentSessionId :: string
  contentType :: "string option"
  contentBody :: string

text \<open>The remote calls the wrapper queues: the method name with the arguments it reads.\<close>

datatype call =
    IssueCall string
  | CreateAgentActivity activity
  | UpdateIssue string
  | CreateComment
  | OtherCall string

text \<open>
  \<^verbatim>\<open>determinePriority\<close>. For \<^verbatim>\<open>issue\<close> it looks the issue up with \<^verbatim>\<open>issueCache.get\<close>,
  which counts as an access, so the cache is returned as well.
\<close>

definition determinePriority :: "call \<Rightarrow> int \<Rightarrow> 'i cache \<Rightarrow> priority \<times> 'i cache" where
  "determinePriority c now cache =
     (case c of
        IssueCall issueId \<Rightarrow>
          if issueId \<noteq> [] then
            (case cache_get issueId False now cache of
               (None, cache') \<Rightarrow> (critical, cache')
             | (Some _, cache') \<Rightarrow> (normal, cache'))
          else (normal, cache)
      | CreateAgentActivity input \<Rightarrow>
          if contentType input = Some ''response'' \<or> contentType input = Some ''error''
          then (normal, cache) else (low, cache)
      | UpdateIssue _ \<Rightarrow> (normal, cache)
      | CreateComment \<Rightarrow> (normal, cache)
      | OtherCall _ \<Rightarrow> (normal, cache))"

definition shouldBatchActivity :: "activity \<Rightarrow> opmode \<Rightarrow> bool" where
  "shouldBatchActivity input operationMode =
     (if operationMode = emergency then True
      else if operationMode = conservative \<and> contentType input = Some ''thought'' then True
      else if contentType input = Some ''response'' \<or> contentType input = Some ''error''
        then False
      else if contentType input = Some ''thought'' then True
      else False)"

text \<open>An item of a session's batch: the activity and the promise handed to its caller.\<close>

record entry =
  item_activity :: activity
  callback :: nat

text \<open>
  \<^verbatim>\<open>processBatchedActivities\<close> is an \<^verbatim>\<open>async\<close> function: at each
  \<^verbatim>\<open>await this.executeWithTracking(...)\<close> it is suspended until the promise of the queued
  call settles. A suspended run is kept as a task: the promise it waits for, the place it
  waits at (behind the merged call, or behind the individual call of the entry with the
  given callback), its two lists of callbacks, and the entries of \<^verbatim>\<open>otherActivities\<close> it
  has not sent yet.
\<close>

datatype suspended = AfterMerged | AfterOther nat

record flushTask =
  task_session :: string
  awaited :: nat
  resume_at :: suspended
  thoughtCallbacks :: "nat list"
  otherCallbacks :: "nat list"
  remainingOthers :: "entry list"

text \<open>
  The wrapper: its two maps (in insertion order), the shared cache and the shared queue,
  which holds the shared tracker and the promise store, and the suspended flushes.
  \<open>batchTimers\<close> maps a session to the delay of its pending flush.
\<close>

record 'i wstate =
  activityBatch :: "(string \<times> entry list) list"
  batchTimers :: "(string \<times> int) list"
  issueCache :: "'i cache"
  requestQueue :: "call qstate"
  flushTasks :: "flushTask list"

definition newWrapper :: "int \<Rightarrow> 'i wstate" where
  "newWrapper now =
     \<lparr> activityBatch = [], batchTimers = [], issueCache = [],
       requestQueue = newQueue (newTracker now), flushTasks = [] \<rparr>"

text \<open>
  The closure \<^verbatim>\<open>executeWithTracking\<close> queues, around the remote operation \<open>op\<close>: a success
  consumes one request; an error that looks like a rate limit writes a remaining count of
  \<open>0\<close> and the reset time into the tracker; the error is thrown on.
\<close>

definition isRateLimitError :: "error \<Rightarrow> bool" where
  "isRateLimitError e =
     ((case message e of None \<Rightarrow> False | Some m \<Rightarrow> str_includes m ''rate limit'')
      \<or> (case message e of None \<Rightarrow> False | Some m \<Rightarrow> str_includes m ''429'')
      \<or> status e = Some 429)"

definition trackedExec :: "(call request \<Rightarrow> outcome) \<Rightarrow> int \<Rightarrow> call executor" where
  "trackedExec op now request tr =
     (case op request of
        Ok response \<Rightarrow> (Ok response, consumeRequest now tr)
      | Err e \<Rightarrow>
          (Err e,
           if isRateLimitError e then
             updateFromHeaders
               [(''x-ratelimit-requests-remaining'', Single ''0''),
                (''x-ratelimit-requests-reset'',
                 Single (case resetHeader e of
                           None \<Rightarrow> show_int ((now + 3600000) div 1000)
                         | Some h \<Rightarrow>
                             if h \<noteq> [] then h else show_int ((now + 3600000) div 1000)))]
               now tr
           else tr))"

text \<open>
  \<^verbatim>\<open>executeWithTracking\<close> up to its \<^verbatim>\<open>await\<close>: the priority is determined and the call is
  queued; the promise of \<^verbatim>\<open>enqueue\<close> is what the caller waits for.
\<close>

definition executeWithTracking :: "call \<Rightarrow> int \<Rightarrow> 'i wstate \<Rightarrow> nat \<times> 'i wstate" where
  "executeWithTracking c now st =
     (let (p, cache') = determinePriority c now (issueCache st);
          (fut, q') = enqueue c p now (requestQueue st)
      in (fut, st\<lparr>issueCache := cache', requestQueue := q'\<rparr>))"

text \<open>
  \<^verbatim>\<open>batchAgentActivity\<close>: a new promise for the caller, the item appended to the session's
  batch, and the session's timer replaced by one of \<open>batchWindow\<close>.
\<close>

definition batchAgentActivity ::
  "string \<Rightarrow> activity \<Rightarrow> int \<Rightarrow> 'i wstate \<Rightarrow> nat \<times> 'i wstate" where
  "batchAgentActivity sessionId act batchWindow st =
     (let (p, ps) = newPromise (promises (requestQueue st));
          items = (case map_of (activityBatch st) sessionId of None \<Rightarrow> [] | Some xs \<Rightarrow> xs)
      in (p, st\<lparr>activityBatch :=
                   AList.update sessionId
                     (items @ [\<lparr> item_activity = act, callback = p \<rparr>]) (activityBatch st),
                 batchTimers := AList.update sessionId batchWindow (batchTimers st),
                 requestQueue := (requestQueue st)\<lparr>promises := ps\<rparr>\<rparr>))"

definition createAgentActivity :: "activity \<Rightarrow> int \<Rightarrow> 'i wstate \<Rightarrow> nat \<times> 'i wstate" where
  "createAgentActivity input now st =
     (let sessionId = agentSessionId input;
          batchWindow = getRecommendedBatchWindow (rateLimitTracker (requestQueue st));
          operationMode = getOperationMode (rateLimitTracker (requestQueue st))
      in if shouldBatchActivity input operationMode
         then batchAgentActivity sessionId input batchWindow st
         else executeWithTracking (CreateAgentActivity input) now st)"

definition isThought :: "entry \<Rightarrow> bool" where
  "isThought it = (contentType (item_activity it) = Some ''thought'')"

definition numbered :: "string list \<Rightarrow> string list" where
  "numbered thoughts = map (\<lambda>(i, t). show_nat (i + 1) @ ''. '' @ t) (enumerate 0 thoughts)"

definition combinedBody :: "string list \<Rightarrow> string" where
  "combinedBody thoughts =
     (if length thoughts = 1 then hd thoughts else join [CHR 0x0A] (numbered thoughts))"

definition resolveAll :: "nat list \<Rightarrow> result \<Rightarrow> settle list \<Rightarrow> settle list" where
  "resolveAll cbs r ps = foldl (\<lambda>ps cb. resolve_p cb r ps) ps cbs"

definition rejectAll :: "nat list \<Rightarrow> error \<Rightarrow> settle list \<Rightarrow> settle list" where
  "rejectAll cbs e ps = foldl (\<lambda>ps cb. reject_p cb e ps) ps cbs"

text \<open>
  The combined thought the flush sends. The source passes the body to the remote operation
  and an activity of type thought without body to \<^verbatim>\<open>determinePriority\<close>; the priority is
  low for both.
\<close>

definition mergedCall :: "string \<Rightarrow> string list \<Rightarrow> call" where
  "mergedCall sessionId thoughts =
     CreateAgentActivity
       \<lparr> agentSessionId = sessionId, contentType = Some ''thought'',
         contentBody = combinedBody thoughts \<rparr>"

text \<open>
  The head of the loop over \<^verbatim>\<open>otherActivities\<close>: with nothing left the flush is over;
  otherwise the next entry is queued with \<^verbatim>\<open>executeWithTracking\<close> and the flush waits for
  its promise.
\<close>

definition sendNextOther ::
  "string \<Rightarrow> nat list \<Rightarrow> nat list \<Rightarrow> entry list \<Rightarrow> int \<Rightarrow> 'i wstate \<Rightarrow> 'i wstate" where
  "sendNextOther sessionId tcbs ocbs others now st =
     (case others of
        [] \<Rightarrow> st
      | it # rest \<Rightarrow>
          let (fut, st') = executeWithTracking (CreateAgentActivity (item_activity it)) now st
          in st'\<lparr>flushTasks := flushTasks st' @
                  [\<lparr> task_session = sessionId, awaited = fut,
                     resume_at = AfterOther (callback it),
                     thoughtCallbacks = tcbs, otherCallbacks = ocbs,
                     remainingOthers = rest \<rparr>]\<rparr>)"

text \<open>
  \<^verbatim>\<open>processBatchedActivities\<close> up to its first \<^verbatim>\<open>await\<close>: the batch is taken and deleted,
  split into thoughts and others, and the merged call (if there is a thought) or else the
  first other entry is queued.
\<close>

definition processBatchedActivities :: "string \<Rightarrow> int \<Rightarrow> 'i wstate \<Rightarrow> 'i wstate" where
  "processBatchedActivities sessionId now st =
     (case map_of (activityBatch st) sessionId of
        None \<Rightarrow> st
      | Some items \<Rightarrow>
          if items = [] then st
          else
            let st1 = st\<lparr>activityBatch := AList.delete sessionId (activityBatch st)\<rparr>;
                thoughtItems = filter isThought items;
                otherItems = filter (\<lambda>it. \<not> isThought it) items;
                thoughts = map (\<lambda>it. contentBody (item_activity it)) thoughtItems;
                tcbs = map callback thoughtItems;
                ocbs = map callback otherItems
            in if thoughts \<noteq> [] then
                 let (fut, st2) = executeWithTracking (mergedCall sessionId thoughts) now st1
                 in st2\<lparr>flushTasks := flushTasks st2 @
                         [\<lparr> task_session = sessionId, awaited = fut, resume_at = AfterMerged,
                            thoughtCallbacks = tcbs, otherCallbacks = ocbs,
                            remainingOthers = otherItems \<rparr>]\<rparr>
               else sendNextOther sessionId tcbs ocbs otherItems now st1)"

text \<open>
  The \<open>k\<close>-th suspended flush goes on once the promise it waits for has settled. Fulfilled
  with \<open>r\<close>: behind the merged call every thought callback is resolved with \<open>r\<close>, behind an
  individual call the callback of that entry, and the loop goes to the next entry.
  Rejected with \<open>e\<close>: the \<^verbatim>\<open>await\<close> throws, the \<^verbatim>\<open>catch\<close> rejects every callback of the batch
  with \<open>e\<close>, and the flush is over. A pending promise leaves the flush suspended.
\<close>

definition resumeFlush :: "nat \<Rightarrow> int \<Rightarrow> 'i wstate \<Rightarrow> 'i wstate" where
  "resumeFlush k now st =
     (if k < length (flushTasks st) then
        let t = flushTasks st ! k;
            others = take k (flushTasks st) @ drop (k + 1) (flushTasks st);
            ps = promises (requestQueue st)
        in if awaited t < length ps then
             (case ps ! awaited t of
                Pending \<Rightarrow> st
              | Resolved r \<Rightarrow>
                  sendNextOther (task_session t) (thoughtCallbacks t) (otherCallbacks t)
                    (remainingOthers t) now
                    (st\<lparr>flushTasks := others,
                        requestQueue := (requestQueue st)
                          \<lparr>promises :=
                             (case resume_at t of
                                AfterMerged \<Rightarrow> resolveAll (thoughtCallbacks t) r ps
                              | AfterOther cb \<Rightarrow> resolve_p cb r ps)\<rparr>\<rparr>)
              | Rejected e \<Rightarrow>
                  st\<lparr>flushTasks := others,
                     requestQueue := (requestQueue st)
                       \<lparr>promises :=
                          rejectAll (thoughtCallbacks t @ otherCallbacks t) e ps\<rparr>\<rparr>)
           else st
      else st)"

text \<open>
  The callback of a session's batch timer, run at time \<open>now\<close>; without a pending timer
  for the session there is no callback.
\<close>

definition flushTimerFire :: "string \<Rightarrow> int \<Rightarrow> 'i wstate \<Rightarrow> 'i wstate" where
  "flushTimerFire sessionId now st =
     (case map_of (batchTimers st) sessionId of
        None \<Rightarrow> st
      | Some delay \<Rightarrow>
          (processBatchedActivities sessionId now st)
            \<lparr>batchTimers := AList.delete sessionId (batchTimers st)\<rparr>)"

text \<open>
  A pass of the shared queue started by its batch timer, the requests being the closures
  of \<^verbatim>\<open>executeWithTracking\<close> around the remote operation \<open>op\<close>.
\<close>

definition wrapperPass ::
  "(call request \<Rightarrow> outcome) \<Rightarrow> int \<Rightarrow> int \<Rightarrow> 'i wstate \<Rightarrow> 'i wstate option" where
  "wrapperPass op now fin st =
     (case batchTimerFire (trackedExec op now) now fin (requestQueue st) of
        None \<Rightarrow> None
      | Some q \<Rightarrow> Some (st\<lparr>requestQueue := q\<rparr>))"

definition cleanup :: "'i wstate \<Rightarrow> 'i wstate" where
  "cleanup st = st\<lparr>batchTimers := [], activityBatch := []\<rparr>"

section \<open>Notions the properties are stated with\<close>

text \<open>The quota invariant \<open>0 \<le> remaining \<le> limit\<close>; it fails when either side is \<open>NaN\<close>.\<close>

definition quotaInvariant :: "tracker \<Rightarrow> bool" where
  "quotaInvariant tr =
     (js_le (Num 0) (requestsRemaining tr) \<and> js_le (requestsRemaining tr) (requestsLimit tr))"

text \<open>The two mutators of the tracker, each with the time it is called at.\<close>

datatype trackerOp = Update headers int | Consume int

fun applyOp :: "trackerOp \<Rightarrow> tracker \<Rightarrow> tracker" where
  "applyOp (Update hs now) tr = updateFromHeaders hs now tr"
| "applyOp (Consume now) tr = consumeRequest now tr"

definition applyOps :: "trackerOp list \<Rightarrow> tracker \<Rightarrow> tracker" where
  "applyOps ops tr = foldl (\<lambda>t opn. applyOp opn t) tr ops"

text \<open>
  What the two request-quota fields hold after \<^verbatim>\<open>updateFromHeaders\<close> is, for each of them,
  the parsed header when the mapping carries it and the prior value when it does not. The
  headers \<open>hs\<close> keep the invariant in the state \<open>tr\<close> when a remaining count they carry parses
  to a number from 0 up to the limit then in force (the carried limit, else the current
  one), and a limit they carry alone parses to a number no less than the current remaining
  count.
\<close>

definition headersKeepInvariant :: "tracker \<Rightarrow> headers \<Rightarrow> bool" where
  "headersKeepInvariant tr hs =
     (case (getHeaderValue hs ''x-ratelimit-requests-remaining'',
            getHeaderValue hs ''x-ratelimit-requests-limit'') of
        (None, None) \<Rightarrow> True
      | (Some r, None) \<Rightarrow> js_le (Num 0) (parseInt r) \<and> js_le (parseInt r) (requestsLimit tr)
      | (None, Some l) \<Rightarrow> js_le (requestsRemaining tr) (parseInt l)
      | (Some r, Some l) \<Rightarrow> js_le (Num 0) (parseInt r) \<and> js_le (parseInt r) (parseInt l))"

text \<open>Every update of the sequence keeps the invariant in the state it meets.\<close>

fun opsKeepInvariant :: "trackerOp list \<Rightarrow> tracker \<Rightarrow> bool" where
  "opsKeepInvariant [] tr = True"
| "opsKeepInvariant (Update hs now # ops) tr =
     (headersKeepInvariant tr hs \<and> opsKeepInvariant ops (updateFromHeaders hs now tr))"
| "opsKeepInvariant (Consume now # ops) tr = opsKeepInvariant ops (consumeRequest now tr)"

text \<open>Every entry has one of the two TTL values; the cache operations keep it so.\<close>

definition ttlTwoValued :: "'i cache \<Rightarrow> bool" where
  "ttlTwoValued c =
     list_all (\<lambda>p. ttl (snd p) = DEFAULT_TTL \<or> ttl (snd p) = EXTENDED_TTL) c"

text \<open>
  A backlog of low-priority requests only, with the tracker refusing low priority: the
  state of the queue in conservative or emergency mode when nothing else is waiting.
\<close>

definition blockedLows :: "'c qstate \<Rightarrow> bool" where
  "blockedLows st =
     (queue st \<noteq> [] \<and> list_all (\<lambda>r. priority r = low) (queue st)
      \<and> \<not> shouldAllowRequest (rateLimitTracker st) low)"

text \<open>The queue in priority order, as \<^verbatim>\<open>insertByPriority\<close> keeps it.\<close>

definition byPriority :: "'c request list \<Rightarrow> bool" where
  "byPriority q = sorted (map (\<lambda>r. priorityOrder (priority r)) q)"





definition rateLimited :: error where
  "rateLimited =
     \<lparr> message = Some ''rate limit exceeded'', status = None, resetHeader = None \<rparr>"

text \<open>The items of a session's batch, none when the session has no batch.\<close>

definition sessionItems :: "'i wstate \<Rightarrow> string \<Rightarrow> entry list" where
  "sessionItems st s = (case map_of (activityBatch st) s of None \<Rightarrow> [] | Some xs \<Rightarrow> xs)"

text \<open>
  Activities handed to \<^verbatim>\<open>createAgentActivity\<close> one after the other with no flush in
  between, that is within one batch window; the promises returned, in order.
\<close>

fun emitAll :: "activity list \<Rightarrow> int \<Rightarrow> 'i wstate \<Rightarrow> nat list \<times> 'i wstate" where
  "emitAll [] now st = ([], st)"
| "emitAll (a # as) now st =
     (let (p, st1) = createAgentActivity a now st;
          (ps, st2) = emitAll as now st1
      in (p # ps, st2))"


text \<open>
  Concrete inputs: a wrapper in emergency mode and one in conservative mode, activities,
  an error that is no rate limit, and remote operations that always fail or succeed.
\<close>

definition emergencyWrapper :: "string wstate" where
  "emergencyWrapper =
     \<lparr> activityBatch = [], batchTimers = [], issueCache = [],
       requestQueue = newQueue (newTracker 0\<lparr>requestsRemaining := Num 50\<rparr>),
       flushTasks = [] \<rparr>"

definition conservativeWrapper :: "string wstate" where
  "conservativeWrapper =
     \<lparr> activityBatch = [], batchTimers = [], issueCache = [],
       requestQueue = newQueue (newTracker 0\<lparr>requestsRemaining := Num 250\<rparr>),
       flushTasks = [] \<rparr>"

definition response :: activity where
  "response = \<lparr> agentSessionId = ''s'', contentType = Some ''response'', contentBody = ''done'' \<rparr>"

definition errorReport :: activity where
  "errorReport = \<lparr> agentSessionId = ''s'', contentType = Some ''error'', contentBody = ''failed'' \<rparr>"

definition thought :: "string \<Rightarrow> activity" where
  "thought b = \<lparr> agentSessionId = ''s'', contentType = Some ''thought'', contentBody = b \<rparr>"

definition boom :: error where
  "boom = \<lparr> message = Some ''boom'', status = None, resetHeader = None \<rparr>"

definition alwaysFails :: "error \<Rightarrow> call request \<Rightarrow> outcome" where
  "alwaysFails e request = Err e"

definition alwaysOk :: "result \<Rightarrow> call request \<Rightarrow> outcome" where
  "alwaysOk v request = Ok v"

text \<open>
  The shared tracker is told of new limits through \<^verbatim>\<open>updateFromHeaders\<close>, its entry point
  for the headers of a response.
\<close>

definition sharedTrackerUpdate :: "headers \<Rightarrow> int \<Rightarrow> 'i wstate \<Rightarrow> 'i wstate" where
  "sharedTrackerUpdate hs now st =
     st\<lparr>requestQueue := (requestQueue st)
          \<lparr>rateLimitTracker :=
             updateFromHeaders hs now (rateLimitTracker (requestQueue st))\<rparr>\<rparr>"





definition wrapperRetryFire :: "nat \<Rightarrow> int \<Rightarrow> 'i wstate \<Rightarrow> 'i wstate" where
  "wrapperRetryFire i now st = st\<lparr>requestQueue := retryFire i now (requestQueue st)\<rparr>"

section \<open>Decimal numerals and \<^verbatim>\<open>parseInt\<close>\<close>

lemma digitVal_digitChar: "d < 10 \<Longrightarrow> digitVal (digitChar d) = d"
proof -
  assume "d < 10"
  then have "d \<in> {0, 1, 2, 3, 4, 5, 6, 7, 8, 9}" by auto
  then show ?thesis by (auto simp: digitVal_def digitChar_def)
qed

lemma isDigit_digitChar: "d < 10 \<Longrightarrow> isDigit (digitChar d)"
proof -
  assume "d < 10"
  then have "d \<in> {0, 1, 2, 3, 4, 5, 6, 7, 8, 9}" by auto
  then show ?thesis by (auto simp: isDigit_def digitChar_def)
qed

lemma digit_not_white_or_sign:
  "isDigit c \<Longrightarrow> \<not> isWhite c \<and> c \<noteq> CHR ''-'' \<and> c \<noteq> CHR ''+''"
  by (auto simp: isDigit_def isWhite_def)

lemma show_nat_digits: "\<forall>c \<in> set (show_nat n). isDigit c"
proof (induction n rule: show_nat.induct)
  case (1 n)
  show ?case
  proof (cases "n < 10")
    case True
    then show ?thesis by (subst show_nat.simps) (simp add: isDigit_digitChar)
  next
    case False
    with 1 show ?thesis by (subst show_nat.simps) (simp add: isDigit_digitChar)
  qed
qed

lemma show_nat_nonempty: "show_nat n \<noteq> []"
  by (subst show_nat.simps) simp

lemma digitsVal_snoc: "digitsVal (xs @ [c]) = 10 * digitsVal xs + digitVal c"
  by (simp add: digitsVal_def)

lemma digitsVal_show_nat: "digitsVal (show_nat n) = n"
proof (induction n rule: show_nat.induct)
  case (1 n)
  show ?case
  proof (cases "n < 10")
    case True
    then show ?thesis by (subst show_nat.simps) (simp add: digitsVal_def digitVal_digitChar)
  next
    case False
    with 1 show ?thesis
      by (subst show_nat.simps) (simp add: digitsVal_snoc digitVal_digitChar)
  qed
qed

text \<open>\<^verbatim>\<open>parseInt\<close> reads a decimal numeral back as the number it prints.\<close>

lemma parseInt_show_nat: "parseInt (show_nat n) = Num (int n)"
proof -
  obtain c cs where cs: "show_nat n = c # cs"
    using show_nat_nonempty [of n] by (cases "show_nat n") auto
  have dig: "\<forall>x \<in> set (c # cs). isDigit x"
    using show_nat_digits [of n] cs by simp
  then have c: "\<not> isWhite c" "c \<noteq> CHR ''-''" "c \<noteq> CHR ''+''" "isDigit c"
    using digit_not_white_or_sign [of c] by auto
  have tw: "takeWhile isDigit cs = cs"
    using dig by (simp add: takeWhile_eq_all_conv)
  have "parseInt (c # cs) = Num (int (digitsVal (c # cs)))"
    using c by (simp add: parseInt_def stripSign_def tw)
  then show ?thesis
    using cs digitsVal_show_nat [of n] by simp
qed

lemma parseInt_show_int: "parseInt (show_int i) = Num i"
proof (cases "i < 0")
  case False
  then show ?thesis by (simp add: show_int_def parseInt_show_nat)
next
  case True
  obtain c cs where cs: "show_nat (nat (- i)) = c # cs"
    using show_nat_nonempty [of "nat (- i)"] by (cases "show_nat (nat (- i))") auto
  have dig: "\<forall>x \<in> set (c # cs). isDigit x"
    using show_nat_digits [of "nat (- i)"] cs by simp
  have tw: "takeWhile isDigit cs = cs"
    using dig by (simp add: takeWhile_eq_all_conv)
  have w: "\<not> isWhite CHR ''-''"
    by (simp add: isWhite_def)
  have "parseInt (CHR ''-'' # c # cs) = Num (- int (digitsVal (c # cs)))"
    using w dig by (simp add: parseInt_def stripSign_def tw)
  then show ?thesis
    using True cs digitsVal_show_nat [of "nat (- i)"] by (simp add: show_int_def)
qed

text \<open>It gives \<open>NaN\<close> exactly when no digit follows the white space and the sign.\<close>

lemma parseInt_NaN_iff:
  "parseInt s = NaN \<longleftrightarrow> takeWhile isDigit (snd (stripSign (dropWhile isWhite s))) = []"
  by (simp add: parseInt_def Let_def split: prod.splits)

section \<open>Properties of the quota tracker\<close>

lemmas tracker_defs =
  updateFromHeaders_def trackRequest_def readField_def getHeaderValue_def
  consumeRequest_def newTracker_def

lemmas parse_defs = parseInt_def stripSign_def isWhite_def isDigit_def digitsVal_def digitVal_def

lemmas mode_defs =
  getOperationMode_def shouldAllowRequest_def getRecommendedBatchWindow_def
  CONSERVATIVE_THRESHOLD_def EMERGENCY_THRESHOLD_def

text \<open>
  For every integer count of remaining requests the three functions agree: the mode is
  normal above 300, conservative above 100 up to 300 and emergency otherwise;
  \<open>shouldAllowRequest\<close> admits every priority in normal mode, critical and normal in
  conservative mode and only critical in emergency mode; the batch window is 500, 2000 and
  5000 ms in the three modes.
\<close>

lemma mode_admission_window_numeric:
  assumes "requestsRemaining tr = Num r"
  shows "getOperationMode tr =
           (if r > 300 then normal_mode else if 100 < r \<and> r \<le> 300 then conservative
            else emergency)
         \<and> shouldAllowRequest tr p =
           (case getOperationMode tr of
              normal_mode \<Rightarrow> True
            | conservative \<Rightarrow> p = critical \<or> p = normal
            | emergency \<Rightarrow> p = critical)
         \<and> getRecommendedBatchWindow tr =
           (case getOperationMode tr of
              normal_mode \<Rightarrow> 500 | conservative \<Rightarrow> 2000 | emergency \<Rightarrow> 5000)"
  using assms by (cases p) (simp_all add: mode_defs)

text \<open>
  C9, on the code. After a remaining-requests header that does not parse, the count is
  \<open>NaN\<close>: \<open>getOperationMode\<close> answers emergency and \<open>getRecommendedBatchWindow\<close> 5000 ms, but
  \<open>shouldAllowRequest\<close> falls through its three comparisons and admits low and normal
  priority.
\<close>

theorem nan_remaining_admits_low:
  "requestsRemaining
     (updateFromHeaders [(''x-ratelimit-requests-remaining'', Single ''unknown'')] 0
        (newTracker 0)) = NaN
   \<and> getOperationMode
     (updateFromHeaders [(''x-ratelimit-requests-remaining'', Single ''unknown'')] 0
        (newTracker 0)) = emergency
   \<and> getRecommendedBatchWindow
     (updateFromHeaders [(''x-ratelimit-requests-remaining'', Single ''unknown'')] 0
        (newTracker 0)) = 5000
   \<and> shouldAllowRequest
     (updateFromHeaders [(''x-ratelimit-requests-remaining'', Single ''unknown'')] 0
        (newTracker 0)) low
   \<and> shouldAllowRequest
     (updateFromHeaders [(''x-ratelimit-requests-remaining'', Single ''unknown'')] 0
        (newTracker 0)) normal"
  by (simp add: tracker_defs parse_defs mode_defs)

text \<open>
  C3, as the code has it. \<open>updateFromHeaders\<close> has no failing path. Each of the five fields
  is read on its own: a field whose header is missing keeps its prior value, and a field
  whose header is present is overwritten with what \<^verbatim>\<open>parseInt\<close> returns for it, the number
  for a numeral and \<open>NaN\<close> for a value that does not parse (the reset time in milliseconds).
\<close>

theorem updateFromHeaders_fieldwise:
  "requestsRemaining (updateFromHeaders hs now tr) =
     (case getHeaderValue hs ''x-ratelimit-requests-remaining'' of
        None \<Rightarrow> requestsRemaining tr | Some v \<Rightarrow> parseInt v)
   \<and> requestsLimit (updateFromHeaders hs now tr) =
     (case getHeaderValue hs ''x-ratelimit-requests-limit'' of
        None \<Rightarrow> requestsLimit tr | Some v \<Rightarrow> parseInt v)
   \<and> resetTimestamp (updateFromHeaders hs now tr) =
     (case getHeaderValue hs ''x-ratelimit-requests-reset'' of
        None \<Rightarrow> resetTimestamp tr | Some v \<Rightarrow> js_mul (parseInt v) (Num 1000))
   \<and> complexityRemaining (updateFromHeaders hs now tr) =
     (case getHeaderValue hs ''x-ratelimit-complexity-remaining'' of
        None \<Rightarrow> complexityRemaining tr | Some v \<Rightarrow> parseInt v)
   \<and> complexityLimit (updateFromHeaders hs now tr) =
     (case getHeaderValue hs ''x-ratelimit-complexity-limit'' of
        None \<Rightarrow> complexityLimit tr | Some v \<Rightarrow> parseInt v)"
  by (simp add: updateFromHeaders_def trackRequest_def readField_def)

theorem updateFromHeaders_fieldwise_witness:
  "requestsRemaining
     (updateFromHeaders
        [(''x-ratelimit-requests-remaining'', Multi [''800'']),
         (''x-ratelimit-requests-reset'', Single ''soon'')] 0 (newTracker 0)) = Num 800
   \<and> requestsLimit
     (updateFromHeaders
        [(''x-ratelimit-requests-remaining'', Multi [''800'']),
         (''x-ratelimit-requests-reset'', Single ''soon'')] 0 (newTracker 0)) = Num 1200
   \<and> resetTimestamp
     (updateFromHeaders
        [(''x-ratelimit-requests-remaining'', Multi [''800'']),
         (''x-ratelimit-requests-reset'', Single ''soon'')] 0 (newTracker 0)) = NaN"
  using updateFromHeaders_fieldwise
    [of "[(''x-ratelimit-requests-remaining'', Multi [''800'']),
          (''x-ratelimit-requests-reset'', Single ''soon'')]" 0 "newTracker 0"]
  by (simp add: getHeaderValue_def newTracker_def parse_defs)

text \<open>
  C3 as stated fails: a limit header that does not parse is not ignored, the limit of 1200
  becomes \<open>NaN\<close> (the valid remaining count beside it is applied).
\<close>

theorem malformed_limit_counterexample:
  "requestsLimit (newTracker 0) = Num 1200
   \<and> requestsLimit
     (updateFromHeaders
        [(''x-ratelimit-requests-remaining'', Single ''800''),
         (''x-ratelimit-requests-limit'', Single ''n/a'')] 0 (newTracker 0)) = NaN
   \<and> requestsRemaining
     (updateFromHeaders
        [(''x-ratelimit-requests-remaining'', Single ''800''),
         (''x-ratelimit-requests-limit'', Single ''n/a'')] 0 (newTracker 0)) = Num 800"
  by (simp add: tracker_defs parse_defs)

lemma consumeRequest_invariant:
  "quotaInvariant tr \<Longrightarrow> quotaInvariant (consumeRequest now tr)"
  by (cases "requestsRemaining tr"; cases "requestsLimit tr")
     (auto simp: quotaInvariant_def consumeRequest_def trackRequest_def)

lemma newTracker_invariant: "quotaInvariant (newTracker now)"
  by (simp add: quotaInvariant_def newTracker_def)

text \<open>
  \<open>updateFromHeaders\<close> keeps the invariant exactly when the headers keep it in the state
  they meet: no other mapping does.
\<close>

lemma updateFromHeaders_invariant_iff:
  assumes "quotaInvariant tr"
  shows "quotaInvariant (updateFromHeaders hs now tr) = headersKeepInvariant tr hs"
proof (cases "getHeaderValue hs ''x-ratelimit-requests-remaining''")
  case None
  then show ?thesis
    using assms
    by (cases "getHeaderValue hs ''x-ratelimit-requests-limit''")
       (auto simp: quotaInvariant_def updateFromHeaders_def trackRequest_def readField_def
          headersKeepInvariant_def)
next
  case (Some r)
  then show ?thesis
    by (cases "getHeaderValue hs ''x-ratelimit-requests-limit''")
       (auto simp: quotaInvariant_def updateFromHeaders_def trackRequest_def readField_def
          headersKeepInvariant_def)
qed

lemma applyOps_keep_invariant:
  "quotaInvariant tr \<Longrightarrow> opsKeepInvariant ops tr \<Longrightarrow> quotaInvariant (applyOps ops tr)"
  unfolding applyOps_def
proof (induction ops arbitrary: tr)
  case Nil
  then show ?case by simp
next
  case (Cons a ops)
  show ?case
  proof (cases a)
    case (Update hs now)
    with Cons.prems have "quotaInvariant (updateFromHeaders hs now tr)"
      by (simp add: updateFromHeaders_invariant_iff)
    with Cons.IH [of "updateFromHeaders hs now tr"] Cons.prems Update show ?thesis
      by simp
  next
    case (Consume now)
    with Cons.IH [of "consumeRequest now tr"] Cons.prems show ?thesis
      by (simp add: consumeRequest_invariant)
  qed
qed

text \<open>
  C4, as the code has it. \<open>consumeRequest\<close> keeps \<open>0 \<le> remaining \<le> limit\<close>. \<open>updateFromHeaders\<close>
  stores what it parses without a check, so from a state with the invariant it keeps the
  invariant if and only if the headers keep it there: a carried remaining count from 0 up
  to the limit in force (the carried one, else the current one), a limit carried alone no
  less than the current remaining count. After every sequence of \<open>consumeRequest\<close> and of
  such \<open>updateFromHeaders\<close> calls, from a state with the invariant (a new tracker is one),
  the invariant holds.
\<close>

theorem quota_invariant_preserved:
  "(quotaInvariant tr \<longrightarrow> quotaInvariant (consumeRequest now tr))
   \<and> (quotaInvariant tr \<longrightarrow>
        quotaInvariant (updateFromHeaders hs now tr) = headersKeepInvariant tr hs)
   \<and> (quotaInvariant tr \<and> opsKeepInvariant ops tr \<longrightarrow> quotaInvariant (applyOps ops tr))"
  using consumeRequest_invariant [of tr now] updateFromHeaders_invariant_iff [of tr hs now]
    applyOps_keep_invariant [of tr ops]
  by blast

theorem quota_invariant_preserved_witness:
  "quotaInvariant (newTracker 0)
   \<and> opsKeepInvariant
       [Consume 5,
        Update [(''x-ratelimit-requests-remaining'', Single ''0''),
                (''x-ratelimit-requests-reset'', Single ''1755168798'')] 10,
        Update [(''x-ratelimit-requests-remaining'', Single ''200'')] 20,
        Update [(''x-ratelimit-requests-limit'', Single ''1500'')] 30,
        Update [(''x-ratelimit-requests-remaining'', Single ''800''),
                (''x-ratelimit-requests-limit'', Single ''1200'')] 40,
        Consume 50]
       (newTracker 0)
   \<and> quotaInvariant
       (applyOps
          [Consume 5,
           Update [(''x-ratelimit-requests-remaining'', Single ''0''),
                   (''x-ratelimit-requests-reset'', Single ''1755168798'')] 10,
           Update [(''x-ratelimit-requests-remaining'', Single ''200'')] 20,
           Update [(''x-ratelimit-requests-limit'', Single ''1500'')] 30,
           Update [(''x-ratelimit-requests-remaining'', Single ''800''),
                   (''x-ratelimit-requests-limit'', Single ''1200'')] 40,
           Consume 50]
          (newTracker 0))
   \<and> \<not> headersKeepInvariant (newTracker 0)
         [(''x-ratelimit-requests-remaining'', Single ''5000'')]
   \<and> \<not> quotaInvariant
         (updateFromHeaders [(''x-ratelimit-requests-remaining'', Single ''5000'')] 0
            (newTracker 0))"
proof -
  let ?ops = "[Consume 5,
        Update [(''x-ratelimit-requests-remaining'', Single ''0''),
                (''x-ratelimit-requests-reset'', Single ''1755168798'')] 10,
        Update [(''x-ratelimit-requests-remaining'', Single ''200'')] 20,
        Update [(''x-ratelimit-requests-limit'', Single ''1500'')] 30,
        Update [(''x-ratelimit-requests-remaining'', Single ''800''),
                (''x-ratelimit-requests-limit'', Single ''1200'')] 40,
        Consume 50]"
  let ?bad = "[(''x-ratelimit-requests-remaining'', Single ''5000'')]"
  have a: "quotaInvariant (newTracker 0)"
    by (rule newTracker_invariant)
  have b: "opsKeepInvariant ?ops (newTracker 0)"
    by (simp add: headersKeepInvariant_def tracker_defs parse_defs)
  have c: "\<not> headersKeepInvariant (newTracker 0) ?bad"
    by (simp add: headersKeepInvariant_def tracker_defs parse_defs)
  note T = quota_invariant_preserved [of "newTracker 0" 0 ?bad ?ops]
  from T a b have d: "quotaInvariant (applyOps ?ops (newTracker 0))"
    by blast
  from T a c have e: "\<not> quotaInvariant (updateFromHeaders ?bad 0 (newTracker 0))"
    by blast
  show ?thesis
    using a b c d e by blast
qed

text \<open>
  C4 as stated fails: a header with a remaining count above the limit is stored as it is,
  and the state has \<open>remaining = 5000 > 1200 = limit\<close>.
\<close>

theorem remaining_above_limit_counterexample:
  "requestsRemaining
     (applyOps [Update [(''x-ratelimit-requests-remaining'', Single ''5000'')] 0]
        (newTracker 0)) = Num 5000
   \<and> requestsLimit
     (applyOps [Update [(''x-ratelimit-requests-remaining'', Single ''5000'')] 0]
        (newTracker 0)) = Num 1200
   \<and> \<not> quotaInvariant
     (applyOps [Update [(''x-ratelimit-requests-remaining'', Single ''5000'')] 0]
        (newTracker 0))"
  by (simp add: applyOps_def quotaInvariant_def tracker_defs parse_defs)

section \<open>Properties of the issue cache\<close>

lemma keys_update_present:
  "map_of c k = Some e \<Longrightarrow> map fst (AList.update k v c) = map fst c"
  by (auto simp: update_keys dest: map_of_SomeD) (metis fst_conv image_eqI map_of_SomeD)

lemma list_all_update:
  "list_all P c \<Longrightarrow> P (k, v) \<Longrightarrow> list_all P (AList.update k v c)"
  by (induction c) auto

lemma list_all_delete: "list_all P c \<Longrightarrow> list_all P (AList.delete k c)"
  by (induction c) auto

lemma list_all_foldl_delete:
  "list_all P c \<Longrightarrow> list_all P (foldl (\<lambda>m e. AList.delete (fst e) m) c es)"
  by (induction es arbitrary: c) (auto simp: list_all_delete)

lemma list_all_map_of: "list_all P c \<Longrightarrow> map_of c k = Some e \<Longrightarrow> P (k, e)"
  by (auto simp: list_all_iff dest: map_of_SomeD)

text \<open>The two TTL values are an invariant of the cache.\<close>

lemma ttlTwoValued_empty: "ttlTwoValued []"
  by (simp add: ttlTwoValued_def)

lemma ttlTwoValued_get: "ttlTwoValued c \<Longrightarrow> ttlTwoValued (snd (cache_get k a now c))"
  unfolding ttlTwoValued_def cache_get_def Let_def
  by (auto split: option.splits intro!: list_all_update dest: list_all_map_of)

lemma ttlTwoValued_evict: "ttlTwoValued c \<Longrightarrow> ttlTwoValued (evictIfNeeded c)"
  unfolding ttlTwoValued_def evictIfNeeded_def Let_def
  by (auto intro: list_all_foldl_delete)

lemma ttlTwoValued_set: "ttlTwoValued c \<Longrightarrow> ttlTwoValued (cache_set k v now c)"
  unfolding cache_set_def Let_def
  by (rule ttlTwoValued_evict)
     (auto simp: ttlTwoValued_def intro!: list_all_update split: option.splits)

lemma ttlTwoValued_invalidate: "ttlTwoValued c \<Longrightarrow> ttlTwoValued (invalidate k c)"
  by (simp add: ttlTwoValued_def invalidate_def list_all_delete)

lemma ttlTwoValued_updateTTL: "ttlTwoValued c \<Longrightarrow> ttlTwoValued (updateTTL k c)"
  unfolding ttlTwoValued_def updateTTL_def
  by (auto split: option.splits intro!: list_all_update)

text \<open>
  C5, as the code has it. For a cached key with \<open>age = now - timestamp\<close>: \<open>get\<close> returns the
  stored value when \<open>age \<le> ttl\<close>; when \<open>ttl < age \<le> STALE_TTL\<close> it returns the value if and
  only if \<open>allowStale\<close> is true; when \<open>age > STALE_TTL\<close> it returns absent. In none of these
  cases is the entry removed: the keys of the cache are the same after the call.
\<close>

theorem get_freshness:
  assumes "map_of c k = Some e" and "ttlTwoValued c"
  shows "fst (cache_get k allowStale now c) =
           (if now - timestamp e \<le> ttl e then Some (issue e)
            else if now - timestamp e \<le> STALE_TTL
              then (if allowStale then Some (issue e) else None)
            else None)
         \<and> map fst (snd (cache_get k allowStale now c)) = map fst c"
proof -
  have "ttl e = DEFAULT_TTL \<or> ttl e = EXTENDED_TTL"
    using list_all_map_of [OF assms(2) [unfolded ttlTwoValued_def] assms(1)] by simp
  then show ?thesis
    using assms(1)
    by (auto simp add: cache_get_def Let_def keys_update_present
          DEFAULT_TTL_def EXTENDED_TTL_def STALE_TTL_def)
qed

theorem get_freshness_witness:
  "map_of (cache_set ''k'' ''v'' 0 []) ''k''
     = Some \<lparr> issue = ''v'', timestamp = 0, ttl = 600000, accessCount = 0, lastAccessed = 0 \<rparr>
   \<and> ttlTwoValued (cache_set ''k'' ''v'' 0 [])
   \<and> fst (cache_get ''k'' False 300000 (cache_set ''k'' ''v'' 0 [])) = Some ''v''
   \<and> fst (cache_get ''k'' False 660000 (cache_set ''k'' ''v'' 0 [])) = None
   \<and> fst (cache_get ''k'' True 660000 (cache_set ''k'' ''v'' 0 [])) = Some ''v''
   \<and> fst (cache_get ''k'' True 4200000 (cache_set ''k'' ''v'' 0 [])) = None"
proof -
  let ?e = "\<lparr> issue = ''v'', timestamp = 0, ttl = 600000, accessCount = 0, lastAccessed = 0 \<rparr>"
  have a: "map_of (cache_set ''k'' ''v'' 0 []) ''k'' = Some ?e"
    by (simp add: cache_set_def evictIfNeeded_def MAX_CACHE_SIZE_def DEFAULT_TTL_def)
  have b: "ttlTwoValued (cache_set ''k'' ''v'' 0 [])"
    by (rule ttlTwoValued_set [OF ttlTwoValued_empty])
  show ?thesis
    using a b get_freshness [OF a b, of False 300000] get_freshness [OF a b, of False 660000]
      get_freshness [OF a b, of True 660000] get_freshness [OF a b, of True 4200000]
    by (simp add: STALE_TTL_def)
qed

text \<open>
  C5 as stated fails: seventy minutes after \<open>set\<close>, beyond the stale limit of one hour,
  \<open>get\<close> returns absent but the key is still in the cache.
\<close>

theorem expired_entry_kept_counterexample:
  "fst (cache_get ''k'' True 4200000 (cache_set ''k'' ''v'' 0 [])) = None
   \<and> map fst (snd (cache_get ''k'' True 4200000 (cache_set ''k'' ''v'' 0 []))) = [''k'']"
  by (simp add: cache_get_def cache_set_def evictIfNeeded_def MAX_CACHE_SIZE_def
        DEFAULT_TTL_def STALE_TTL_def)

text \<open>
  C10. For every key that has an entry, every \<open>get\<close>, whatever it returns and whatever
  \<open>allowStale\<close> is, leaves the entry with its \<open>accessCount\<close> one higher and its
  \<open>lastAccessed\<close> set to the current time, the other fields as they were.
\<close>

theorem get_counts_every_access:
  "map_of c k = Some e \<Longrightarrow>
   map_of (snd (cache_get k allowStale now c)) k =
     Some (e\<lparr>accessCount := accessCount e + 1, lastAccessed := now\<rparr>)"
  by (simp add: cache_get_def Let_def update_conv')

theorem get_counts_every_access_witness:
  "map_of (cache_set ''k'' ''v'' 0 []) ''k''
     = Some \<lparr> issue = ''v'', timestamp = 0, ttl = 600000, accessCount = 0, lastAccessed = 0 \<rparr>
   \<and> fst (cache_get ''k'' False 660000 (cache_set ''k'' ''v'' 0 [])) = None
   \<and> map_of (snd (cache_get ''k'' False 660000 (cache_set ''k'' ''v'' 0 []))) ''k''
     = Some \<lparr> issue = ''v'', timestamp = 0, ttl = 600000, accessCount = 1,
              lastAccessed = 660000 \<rparr>"
proof -
  let ?e = "\<lparr> issue = ''v'', timestamp = 0, ttl = 600000, accessCount = 0, lastAccessed = 0 \<rparr>"
  have a: "map_of (cache_set ''k'' ''v'' 0 []) ''k'' = Some ?e"
    by (simp add: cache_set_def evictIfNeeded_def MAX_CACHE_SIZE_def DEFAULT_TTL_def)
  have b: "fst (cache_get ''k'' False 660000 (cache_set ''k'' ''v'' 0 [])) = None"
    by (simp add: cache_get_def cache_set_def evictIfNeeded_def MAX_CACHE_SIZE_def
          DEFAULT_TTL_def STALE_TTL_def)
  show ?thesis
    using a b get_counts_every_access [OF a, of False 660000] by simp
qed

text \<open>
  The accesses counted on expired reads weigh on the TTL like any other: the sixth access
  of an entry, a miss included, makes the next \<open>set\<close> give it the extended TTL.
\<close>

lemma missed_get_counts_for_escalation:
  assumes "map_of c k = Some e" and "accessCount e = 5" and "length c \<le> MAX_CACHE_SIZE"
  shows "map_option ttl (map_of (cache_set k v t (snd (cache_get k a now c))) k)
           = Some EXTENDED_TTL"
proof -
  have "length (AList.update k e' c) = length c" for e'
    by (metis assms(1) keys_update_present length_map)
  then show ?thesis
    using assms
    by (simp add: cache_get_def cache_set_def Let_def update_conv' evictIfNeeded_def)
qed

section \<open>Properties of the request queue\<close>

lemma blockedLows_rotate:
  "blockedLows st \<Longrightarrow> queue st = r # rest \<Longrightarrow> blockedLows (st\<lparr>queue := rest @ [r]\<rparr>)"
  by (auto simp: blockedLows_def)

text \<open>
  The loop cannot return from a backlog of refused low-priority requests: each turn moves
  the head to the tail and leaves the count of processed requests where it was.
\<close>

lemma processLoop_returns_not_blocked:
  assumes ret: "processLoop exec m p st = Some y"
  shows "\<not> (blockedLows st \<and> p < m)"
proof (rule processLoop.raw_induct
         [where P = "\<lambda>exec m p st y. \<not> (blockedLows st \<and> p < m)", OF _ ret])
  fix loop :: "'a executor \<Rightarrow> nat \<Rightarrow> nat \<Rightarrow> 'a qstate \<Rightarrow> 'a qstate option"
  fix exec m p st y
  assume IH: "\<And>exec m p st y. loop exec m p st = Some y \<Longrightarrow> \<not> (blockedLows st \<and> p < m)"
  assume step:
    "(case queue st of
        [] \<Rightarrow> Some st
      | request # rest \<Rightarrow>
          if \<not> p < m then Some st
          else if \<not> shouldAllowRequest (rateLimitTracker st) (priority request) then
            if priority request = low then loop exec m p (st\<lparr>queue := rest @ [request]\<rparr>)
            else Some st
          else loop exec m (p + 1) (executeRequest exec request (st\<lparr>queue := rest\<rparr>)))
     = Some y"
  show "\<not> (blockedLows st \<and> p < m)"
  proof
    assume b: "blockedLows st \<and> p < m"
    then obtain r rest where q: "queue st = r # rest"
      by (cases "queue st") (auto simp: blockedLows_def)
    with b have r: "priority r = low" "\<not> shouldAllowRequest (rateLimitTracker st) (priority r)"
      by (auto simp: blockedLows_def)
    from step q r b have "loop exec m p (st\<lparr>queue := rest @ [r]\<rparr>) = Some y"
      by simp
    from IH [OF this] blockedLows_rotate [OF _ q] b show False
      by blast
  qed
qed

lemma processLoop_spins: "blockedLows st \<Longrightarrow> p < m \<Longrightarrow> processLoop exec m p st = None"
  using processLoop_returns_not_blocked [of exec m p st]
  by (cases "processLoop exec m p st") auto

lemma maxBatchSize_pos: "0 < maxBatchSize mode"
  by (cases mode) (simp_all add: maxBatchSize_def)

lemma processQueue_spins:
  assumes "\<not> processing st" and "blockedLows st"
  shows "processQueue exec now fin st = None"
proof -
  have "blockedLows (st\<lparr>processing := True, lastProcessTime := now\<rparr>)"
    using assms(2) by (simp add: blockedLows_def)
  from processLoop_spins [OF this maxBatchSize_pos]
  show ?thesis
    using assms by (simp add: processQueue_def blockedLows_def)
qed

lemma insertIndex_shift: "insertIndex p i q = i + insertIndex p 0 q"
proof (induction q arbitrary: i)
  case Nil
  then show ?case by simp
next
  case (Cons x q)
  from Cons [of "i + 1"] Cons [of 1] show ?case by simp
qed

lemma insertByPriority_Cons:
  "insertByPriority r (x # q) =
     (if priorityOrder (priority x) > priorityOrder (priority r) then r # x # q
      else x # insertByPriority r q)"
  using insertIndex_shift [of "priorityOrder (priority r)" 1 q]
  by (simp add: insertByPriority_def Let_def)

lemma insertByPriority_Nil: "insertByPriority r [] = [r]"
  by (simp add: insertByPriority_def)

lemma set_insertByPriority: "set (insertByPriority r q) = insert r (set q)"
  by (induction q) (auto simp: insertByPriority_Nil insertByPriority_Cons)

lemma byPriority_insert: "byPriority q \<Longrightarrow> byPriority (insertByPriority r q)"
  unfolding byPriority_def
proof (induction q)
  case Nil
  then show ?case by (simp add: insertByPriority_Nil)
next
  case (Cons x q)
  then show ?case
    by (auto simp: insertByPriority_Cons set_insertByPriority)
qed

lemma priorityOrder_le_2: "priorityOrder p \<le> 2"
  by (cases p) simp_all

lemma low_head_all_low:
  assumes "byPriority q" and "q = r # rest" and "priority r = low"
  shows "list_all (\<lambda>x. priority x = low) q"
proof -
  have "priority x = low" if "x \<in> set q" for x
  proof -
    have "priorityOrder (priority r) \<le> priorityOrder (priority x)"
      using assms(1,2) that by (auto simp: byPriority_def)
    then have "2 \<le> priorityOrder (priority x)"
      using assms(3) by simp
    then show ?thesis
      by (cases "priority x") simp_all
  qed
  then show ?thesis
    by (simp add: list_all_iff)
qed

text \<open>
  The queue is kept in priority order, so a low-priority head means a queue of
  low-priority requests only: whenever the head is a refused low-priority request, the
  pass does not return.
\<close>

lemma refused_low_head_never_returns:
  assumes "byPriority (queue st)" and "queue st = r # rest" and "priority r = low"
    and "\<not> shouldAllowRequest (rateLimitTracker st) low" and "\<not> processing st"
  shows "processQueue exec now fin st = None"
proof -
  have "blockedLows st"
    using assms low_head_all_low [OF assms(1,2,3)] by (simp add: blockedLows_def)
  then show ?thesis
    using assms(5) by (rule processQueue_spins [rotated])
qed

text \<open>
  C1, on the code. With 250 requests remaining (conservative mode) and one low-priority
  request queued, the processing pass that the batch timer starts never returns: the
  refused head is moved to the tail and the loop continues with it, for every executor.
\<close>

theorem low_backlog_pass_never_returns:
  "batchTimerFire exec now fin
     (snd (enqueue c low 0
        (newQueue
           (updateFromHeaders [(''x-ratelimit-requests-remaining'', Single ''250'')] 0
              (newTracker 0)))))
   = None"
proof -
  let ?st = "snd (enqueue c low 0
        (newQueue
           (updateFromHeaders [(''x-ratelimit-requests-remaining'', Single ''250'')] 0
              (newTracker 0))))"
  have timer: "batchTimer ?st = Some 2000"
    by (simp add: enqueue_def newPromise_def newQueue_def scheduleProcessing_def
          tracker_defs parse_defs mode_defs)
  have "processQueue exec now fin (?st\<lparr>batchTimer := None\<rparr>) = None"
    by (rule processQueue_spins)
       (simp_all add: enqueue_def newPromise_def newQueue_def scheduleProcessing_def
          insertByPriority_def blockedLows_def tracker_defs parse_defs mode_defs)
  then show ?thesis
    by (simp add: batchTimerFire_def timer)
qed









section \<open>Properties of the client wrapper\<close>

lemmas wrapper_defs =
  createAgentActivity_def shouldBatchActivity_def batchAgentActivity_def newPromise_def
  Let_def flushTimerFire_def processBatchedActivities_def sendNextOther_def isThought_def
  executeWithTracking_def determinePriority_def enqueue_def scheduleProcessing_def
  insertByPriority_def mergedCall_def combinedBody_def sharedTrackerUpdate_def
  wrapperPass_def batchTimerFire_def processQueue_def processLoop.simps maxBatchSize_def
  executeRequest_def trackedExec_def isRateLimitMessage_def isRateLimitError_def
  resolve_p_def reject_p_def resumeFlush_def rejectAll_def resolveAll_def
  newWrapper_def newQueue_def HISTORY_WINDOW_MS_def MAX_RETRIES_def BASE_RETRY_DELAY_def

lemmas input_defs =
  emergencyWrapper_def conservativeWrapper_def thought_def response_def errorReport_def
  boom_def rateLimited_def alwaysFails_def alwaysOk_def

lemma resolve_p_length [simp]: "length (resolve_p i v ps) = length ps"
  by (simp add: resolve_p_def)

lemma reject_p_length [simp]: "length (reject_p i e ps) = length ps"
  by (simp add: reject_p_def)

lemma resolveAll_length [simp]: "length (resolveAll cbs r ps) = length ps"
  unfolding resolveAll_def by (induction cbs arbitrary: ps) auto

lemma rejectAll_length [simp]: "length (rejectAll cbs e ps) = length ps"
  unfolding rejectAll_def by (induction cbs arbitrary: ps) auto





lemma batchAgentActivity_effect:
  "fst (batchAgentActivity s a w st) = length (promises (requestQueue st))"
  "promises (requestQueue (snd (batchAgentActivity s a w st))) = promises (requestQueue st) @ [Pending]"
  "sessionItems (snd (batchAgentActivity s a w st)) s =
     sessionItems st s @ [\<lparr> item_activity = a, callback = length (promises (requestQueue st)) \<rparr>]"
  "map_of (activityBatch (snd (batchAgentActivity s a w st))) s =
     Some (sessionItems (snd (batchAgentActivity s a w st)) s)"
  "map_of (batchTimers (snd (batchAgentActivity s a w st))) s = Some w"
  "queue (requestQueue (snd (batchAgentActivity s a w st))) = queue (requestQueue st)"
  "batchTimer (requestQueue (snd (batchAgentActivity s a w st))) = batchTimer (requestQueue st)"
  "rateLimitTracker (requestQueue (snd (batchAgentActivity s a w st)))
     = rateLimitTracker (requestQueue st)"
  by (simp_all add: batchAgentActivity_def newPromise_def Let_def sessionItems_def update_conv')

lemma emergency_window:
  "getOperationMode tr = emergency \<Longrightarrow> getRecommendedBatchWindow tr = 5000"
  by (simp add: mode_defs split: if_splits)

text \<open>
  C2, as the code has it. A payload of type response or error is not batched in normal and
  conservative mode: no batch and no batch timer changes, and the call is queued at once
  at normal priority. In emergency mode it is not queued: it is appended to the batch of
  its session, the flush timer of the session is set to the 5000 ms window, and the
  caller's promise is pending.
\<close>

theorem terminal_outcomes_immediate:
  assumes "contentType input = Some ''response'' \<or> contentType input = Some ''error''"
  shows "(getOperationMode (rateLimitTracker (requestQueue st)) \<noteq> emergency \<longrightarrow>
           activityBatch (snd (createAgentActivity input now st)) = activityBatch st
         \<and> batchTimers (snd (createAgentActivity input now st)) = batchTimers st
         \<and> queue (requestQueue (snd (createAgentActivity input now st))) =
             insertByPriority
               \<lparr> priority = normal, execute = CreateAgentActivity input,
                 future = fst (createAgentActivity input now st),
                 req_timestamp = now, retryCount = 0 \<rparr>
               (queue (requestQueue st)))
       \<and> (getOperationMode (rateLimitTracker (requestQueue st)) = emergency \<longrightarrow>
           createAgentActivity input now st
             = batchAgentActivity (agentSessionId input) input 5000 st
         \<and> sessionItems (snd (createAgentActivity input now st)) (agentSessionId input)
             = sessionItems st (agentSessionId input)
               @ [\<lparr> item_activity = input, callback = fst (createAgentActivity input now st) \<rparr>]
         \<and> map_of (batchTimers (snd (createAgentActivity input now st))) (agentSessionId input)
             = Some 5000
         \<and> queue (requestQueue (snd (createAgentActivity input now st)))
             = queue (requestQueue st)
         \<and> batchTimer (requestQueue (snd (createAgentActivity input now st)))
             = batchTimer (requestQueue st)
         \<and> promises (requestQueue (snd (createAgentActivity input now st)))
             = promises (requestQueue st) @ [Pending])"
proof -
  have a: "getOperationMode (rateLimitTracker (requestQueue st)) \<noteq> emergency \<longrightarrow>
           activityBatch (snd (createAgentActivity input now st)) = activityBatch st
         \<and> batchTimers (snd (createAgentActivity input now st)) = batchTimers st
         \<and> queue (requestQueue (snd (createAgentActivity input now st))) =
             insertByPriority
               \<lparr> priority = normal, execute = CreateAgentActivity input,
                 future = fst (createAgentActivity input now st),
                 req_timestamp = now, retryCount = 0 \<rparr>
               (queue (requestQueue st))"
    using assms
    by (auto simp: createAgentActivity_def Let_def shouldBatchActivity_def
        executeWithTracking_def determinePriority_def enqueue_def newPromise_def
        scheduleProcessing_def split: if_splits)
  have b: "createAgentActivity input now st
             = batchAgentActivity (agentSessionId input) input 5000 st"
    if "getOperationMode (rateLimitTracker (requestQueue st)) = emergency"
    using that by (simp add: createAgentActivity_def Let_def shouldBatchActivity_def
        emergency_window)
  show ?thesis
    using a b by (simp add: batchAgentActivity_effect)
qed

theorem terminal_outcomes_immediate_witness:
  "(contentType response = Some ''response'' \<or> contentType response = Some ''error'')
   \<and> getOperationMode (rateLimitTracker (requestQueue (newWrapper 0 :: string wstate)))
       \<noteq> emergency
   \<and> activityBatch (snd (createAgentActivity response 7 (newWrapper 0 :: string wstate))) = []
   \<and> queue (requestQueue (snd (createAgentActivity response 7 (newWrapper 0 :: string wstate))))
     = [\<lparr> priority = normal, execute = CreateAgentActivity response, future = 0,
          req_timestamp = 7, retryCount = 0 \<rparr>]
   \<and> (contentType errorReport = Some ''response'' \<or> contentType errorReport = Some ''error'')
   \<and> getOperationMode (rateLimitTracker (requestQueue emergencyWrapper)) = emergency
   \<and> sessionItems (snd (createAgentActivity errorReport 7 emergencyWrapper)) ''s''
     = [\<lparr> item_activity = errorReport, callback = 0 \<rparr>]
   \<and> map_of (batchTimers (snd (createAgentActivity errorReport 7 emergencyWrapper))) ''s''
     = Some 5000
   \<and> queue (requestQueue (snd (createAgentActivity errorReport 7 emergencyWrapper))) = []
   \<and> promises (requestQueue (snd (createAgentActivity errorReport 7 emergencyWrapper)))
     = [Pending]"
proof -
  let ?w = "newWrapper 0 :: string wstate"
  have a: "contentType response = Some ''response'' \<or> contentType response = Some ''error''"
    by (simp add: response_def)
  have m: "getOperationMode (rateLimitTracker (requestQueue ?w)) \<noteq> emergency"
    by (simp add: newWrapper_def newQueue_def newTracker_def mode_defs)
  have f: "fst (createAgentActivity response 7 ?w) = 0"
    by (simp add: createAgentActivity_def Let_def shouldBatchActivity_def response_def
          newWrapper_def newQueue_def newTracker_def mode_defs executeWithTracking_def
          determinePriority_def enqueue_def newPromise_def)
  from terminal_outcomes_immediate [OF a, of ?w 7] m
  have "activityBatch (snd (createAgentActivity response 7 ?w)) = activityBatch ?w
      \<and> queue (requestQueue (snd (createAgentActivity response 7 ?w))) =
          insertByPriority
            \<lparr> priority = normal, execute = CreateAgentActivity response,
              future = fst (createAgentActivity response 7 ?w),
              req_timestamp = 7, retryCount = 0 \<rparr>
            (queue (requestQueue ?w))"
    by blast
  then have n: "activityBatch (snd (createAgentActivity response 7 ?w)) = []"
    "queue (requestQueue (snd (createAgentActivity response 7 ?w)))
     = [\<lparr> priority = normal, execute = CreateAgentActivity response, future = 0,
          req_timestamp = 7, retryCount = 0 \<rparr>]"
    by (simp_all only: f) (simp_all add: newWrapper_def newQueue_def insertByPriority_def)
  have a': "contentType errorReport = Some ''response'' \<or> contentType errorReport = Some ''error''"
    by (simp add: errorReport_def)
  have m': "getOperationMode (rateLimitTracker (requestQueue emergencyWrapper)) = emergency"
    by (simp add: emergencyWrapper_def newQueue_def newTracker_def mode_defs)
  have s: "agentSessionId errorReport = ''s''"
    by (simp add: errorReport_def)
  have f': "fst (createAgentActivity errorReport 7 emergencyWrapper) = 0"
    by (simp add: createAgentActivity_def Let_def shouldBatchActivity_def m'
          batchAgentActivity_effect) (simp add: emergencyWrapper_def newQueue_def)
  from terminal_outcomes_immediate [OF a', of emergencyWrapper 7] m'
  have "sessionItems (snd (createAgentActivity errorReport 7 emergencyWrapper))
            (agentSessionId errorReport)
          = sessionItems emergencyWrapper (agentSessionId errorReport)
            @ [\<lparr> item_activity = errorReport,
                 callback = fst (createAgentActivity errorReport 7 emergencyWrapper) \<rparr>]
      \<and> map_of (batchTimers (snd (createAgentActivity errorReport 7 emergencyWrapper)))
            (agentSessionId errorReport) = Some 5000
      \<and> queue (requestQueue (snd (createAgentActivity errorReport 7 emergencyWrapper)))
          = queue (requestQueue emergencyWrapper)
      \<and> promises (requestQueue (snd (createAgentActivity errorReport 7 emergencyWrapper)))
          = promises (requestQueue emergencyWrapper) @ [Pending]"
    by blast
  then have e: "sessionItems (snd (createAgentActivity errorReport 7 emergencyWrapper)) ''s''
        = [\<lparr> item_activity = errorReport, callback = 0 \<rparr>]"
    "map_of (batchTimers (snd (createAgentActivity errorReport 7 emergencyWrapper))) ''s''
        = Some 5000"
    "queue (requestQueue (snd (createAgentActivity errorReport 7 emergencyWrapper))) = []"
    "promises (requestQueue (snd (createAgentActivity errorReport 7 emergencyWrapper)))
        = [Pending]"
    by (simp_all only: f' s) (simp_all add: emergencyWrapper_def newQueue_def sessionItems_def)
  show ?thesis
    using a m n a' m' e by blast
qed

text \<open>
  C2 as stated fails in emergency mode: a response goes into the session's batch behind a
  5000 ms timer and nothing is queued.
\<close>

theorem response_batched_counterexample:
  "getOperationMode (rateLimitTracker (requestQueue emergencyWrapper)) = emergency
   \<and> activityBatch (snd (createAgentActivity response 0 emergencyWrapper))
     = [(''s'', [\<lparr> item_activity = response, callback = 0 \<rparr>])]
   \<and> batchTimers (snd (createAgentActivity response 0 emergencyWrapper)) = [(''s'', 5000)]
   \<and> queue (requestQueue (snd (createAgentActivity response 0 emergencyWrapper))) = []"
  by (simp add: createAgentActivity_def emergencyWrapper_def response_def newQueue_def
      newTracker_def mode_defs shouldBatchActivity_def batchAgentActivity_def newPromise_def
      Let_def)








text \<open>
  Without the replenished quota the flush of such a batch gets nowhere: in emergency mode
  the merged call is refused and the pass of the queue does not return, so the remote
  operation is never called.
\<close>

lemma emergency_flush_refused:
  "\<not> shouldAllowRequest
       (rateLimitTracker (requestQueue
          (flushTimerFire ''s'' 5000
             (snd (emitAll [thought ''hm'', response] 0 emergencyWrapper)))))
       low
   \<and> wrapperPass (alwaysFails boom) 5000 5000
       (flushTimerFire ''s'' 5000
          (snd (emitAll [thought ''hm'', response] 0 emergencyWrapper)))
     = None"
proof -
  let ?w = "flushTimerFire ''s'' 5000 (snd (emitAll [thought ''hm'', response] 0 emergencyWrapper))"
  note defs = wrapper_defs input_defs tracker_defs parse_defs mode_defs
  define Q where "Q = requestQueue ?w"
  have a: "\<not> shouldAllowRequest (rateLimitTracker (requestQueue ?w)) low"
    by (simp add: defs)
  have t: "batchTimer Q = Some 0"
    unfolding Q_def by (simp add: defs)
  have sp: "processQueue (trackedExec (alwaysFails boom) 5000) 5000 5000
          (Q\<lparr>batchTimer := None\<rparr>) = None"
    unfolding Q_def by (rule processQueue_spins) (simp_all add: blockedLows_def defs)
  have b: "wrapperPass (alwaysFails boom) 5000 5000 ?w = None"
    unfolding wrapperPass_def batchTimerFire_def Q_def [symmetric]
    by (simp only: t sp option.case)
  show ?thesis
    using a b by blast
qed















lemma trackedExec_outcome: "fst (trackedExec op now r tr) = op r"
  by (simp add: trackedExec_def split: outcome.splits)






text \<open>
  After the rate-limit failure the wrapper has written a remaining count of 0 into the
  tracker; when the retry timer has put the merged call back, the pass of the queue
  meets a refused low-priority head and does not return.
\<close>

lemma retried_merged_call_pass_never_returns:
  "map_option (requestsRemaining \<circ> rateLimitTracker \<circ> requestQueue)
     (wrapperPass (alwaysFails rateLimited) 500 500
        (flushTimerFire ''s'' 500
           (snd (emitAll [thought ''a'', thought ''b'', thought ''c''] 0
                  (newWrapper 0 :: string wstate)))))
     = Some (Num 0)
   \<and> Option.bind
       (wrapperPass (alwaysFails rateLimited) 500 500
          (flushTimerFire ''s'' 500
             (snd (emitAll [thought ''a'', thought ''b'', thought ''c''] 0
                    (newWrapper 0 :: string wstate)))))
       (wrapperPass (alwaysFails rateLimited) 5500 5500 \<circ> wrapperRetryFire 0 1500)
     = None"
proof -
  let ?acts = "[thought ''a'', thought ''b'', thought ''c'']"
  let ?wn = "flushTimerFire ''s'' 500 (snd (emitAll ?acts 0 (newWrapper 0 :: string wstate)))"
  note defs = wrapper_defs input_defs tracker_defs parse_defs mode_defs
  define A where "A = the (wrapperPass (alwaysFails rateLimited) 500 500 ?wn)"
  have pa: "wrapperPass (alwaysFails rateLimited) 500 500 ?wn = Some A"
    unfolding A_def by (simp add: defs)
  have c: "requestsRemaining (rateLimitTracker (requestQueue A)) = Num 0"
    unfolding A_def by (simp add: defs)
  have t': "batchTimer (requestQueue (wrapperRetryFire 0 1500 A)) = Some 4000"
    unfolding A_def by (simp add: defs wrapperRetryFire_def retryFire_def)
  have "processQueue (trackedExec (alwaysFails rateLimited) 5500) 5500 5500
          ((requestQueue (wrapperRetryFire 0 1500 A))\<lparr>batchTimer := None\<rparr>) = None"
    unfolding A_def
    by (rule processQueue_spins)
       (simp_all add: blockedLows_def defs wrapperRetryFire_def retryFire_def)
  then have d: "wrapperPass (alwaysFails rateLimited) 5500 5500 (wrapperRetryFire 0 1500 A)
                  = None"
    by (simp add: wrapperPass_def batchTimerFire_def t')
  show ?thesis
    using c d by (simp only: pa option.map bind.simps comp_apply)
qed

end
